theory Spec2Isabelle
  imports Main
begin

section \<open>The browser builder of build_angular: data model\<close>

text \<open>
  The file \<^verbatim>\<open>src/packages/angular_devkit/build_angular/src/browser/index.ts\<close> assembles
  webpack configuration fragments, runs one webpack build per configuration and
  post-processes the output. Everything it calls from other modules (the fragment
  providers, the build runner, the output cleaner, the service-worker augmenter, the
  statistics formatters, the path functions) is a field of the record \<open>env\<close> below, so
  every theorem holds for all behaviours of these collaborators.
\<close>

subsection \<open>JavaScript values\<close>

text \<open>A thrown exception or the reason of a rejected promise.\<close>

datatype js_error = Error string

text \<open>
  An optional option of the schema is \<open>None\<close> when it is \<^verbatim>\<open>undefined\<close>. The tests
  \<^verbatim>\<open>if (x)\<close>, \<^verbatim>\<open>x ? a : b\<close>, \<^verbatim>\<open>!x\<close> and \<^verbatim>\<open>x || y\<close> of the source go by JavaScript
  truthiness: \<^verbatim>\<open>undefined\<close>, \<^verbatim>\<open>false\<close> and the empty string are falsy.
\<close>

fun truthy_bool :: "bool option \<Rightarrow> bool" where
  "truthy_bool None = False"
| "truthy_bool (Some b) = b"

fun truthy_str :: "string option \<Rightarrow> bool" where
  "truthy_str None = False"
| "truthy_str (Some s) = (s \<noteq> [])"

text \<open>\<^verbatim>\<open>s || d\<close> for an optional string \<open>s\<close> and a string \<open>d\<close>.\<close>

definition or_else :: "string option \<Rightarrow> string \<Rightarrow> string" where
  "or_else s d = (if truthy_str s then the s else d)"

text \<open>\<^verbatim>\<open>s.split(c)\<close> for a one-character separator, and \<^verbatim>\<open>xs[i]\<close>, which is
  \<^verbatim>\<open>undefined\<close> out of range.\<close>

fun split :: "char \<Rightarrow> string \<Rightarrow> string list" where
  "split c [] = [[]]"
| "split c (x # xs) =
     (if x = c then [] # split c xs
      else (case split c xs of
              [] \<Rightarrow> [[x]]
            | w # ws \<Rightarrow> (x # w) # ws))"

fun index :: "'a list \<Rightarrow> nat \<Rightarrow> 'a option" where
  "index [] i = None"
| "index (x # xs) 0 = Some x"
| "index (x # xs) (Suc i) = index xs i"

subsection \<open>Build options, build context, workspace\<close>

type_synonym path = string

text \<open>The fields of \<^verbatim>\<open>BrowserBuilderSchema\<close> that the file reads.\<close>

record options =
  outputPath :: string
  deleteOutputPath :: "bool option"
  verbose :: "bool option"
  watch :: "bool option"
  serviceWorker :: "bool option"
  aot :: "bool option"
  baseHref :: "string option"
  ngswConfigPath :: "string option"
  main :: "string option"
  polyfills :: "string option"
  webWorkerTsConfig :: "string option"

datatype analytics = Analytics nat

datatype level = Info | Warn | Err

text \<open>\<^verbatim>\<open>logging.LoggerApi\<close>: each method may throw; a call that returns has written
  its text.\<close>

record logger =
  info :: "string \<Rightarrow> js_error + unit"
  warn :: "string \<Rightarrow> js_error + unit"
  error :: "string \<Rightarrow> js_error + unit"

record target =
  project :: string

record builder =
  builderName :: string

record builder_context =
  workspaceRoot :: string
  target :: "target option"
  analytics :: "analytics option"
  builder :: "builder option"
  logger :: logger

record project_entry =
  project_root :: string

text \<open>\<^verbatim>\<open>experimental.workspace.Workspace\<close>: \<open>getDefaultProjectName\<close> is what the method
  of that name returns (\<open>None\<close> for \<^verbatim>\<open>null\<close>); \<open>getProject\<close> throws for a project the
  workspace does not have.\<close>

record workspace =
  workspace_root :: path
  getDefaultProjectName :: "string option"
  projects :: "(string \<times> project_entry) list"

definition getProject :: "workspace \<Rightarrow> string \<Rightarrow> js_error + project_entry" where
  "getProject w name =
     (case map_of (projects w) name of
        None \<Rightarrow> Inl (Error ''Project does not exist.'')
      | Some p \<Rightarrow> Inr p)"

subsection \<open>Webpack configurations\<close>

datatype plugin =
    NgBuildAnalyticsPlugin path analytics "string option"
  | Plugin string

text \<open>
  A \<^verbatim>\<open>webpack.Configuration\<close>: the keys the file reads or writes (\<open>plugins\<close>,
  \<open>stats\<close>), and the other keys as opaque text. The object literal \<^verbatim>\<open>{}\<close> has no key.
\<close>

record configuration =
  plugins :: "plugin list option"
  stats :: "string option"
  settings :: "(string \<times> string) list"

definition empty_configuration :: configuration where
  "empty_configuration = \<lparr>plugins = None, stats = None, settings = []\<rparr>"

record wco =
  wco_root :: path
  projectRoot :: path
  buildOptions :: options

subsection \<open>Statistics and logging\<close>

text \<open>\<^verbatim>\<open>webpack.Stats\<close>: its four methods, each of which may throw.\<close>

record webpack_stats =
  toJson :: "string option \<Rightarrow> js_error + string"
  toString :: "string option \<Rightarrow> js_error + string"
  hasWarnings :: "js_error + bool"
  hasErrors :: "js_error + bool"

text \<open>What a call of the logging callback does: the lines it wrote, in order, and
  whether it returned or threw.\<close>

record logged =
  lines :: "(level \<times> string) list"
  outcome :: "js_error + unit"

type_synonym logging_callback = "webpack_stats \<Rightarrow> configuration \<Rightarrow> logged"

subsection \<open>Observables, promises, effects\<close>

text \<open>
  An observable is modelled by what a subscriber sees of it: the values it emits, in
  order, and how it ends. \<open>Pending\<close> is an observable that is still open when the
  observation stops (a build in watch mode never completes).
\<close>

datatype ending = Complete | Throw js_error | Pending

record 'a observable =
  emitted :: "'a list"
  ending :: ending

datatype 'a promise = Resolved 'a | Rejected js_error | Unsettled

text \<open>The calls the orchestrator makes to its collaborators, in the order it makes
  them.\<close>

datatype effect =
    ConfigFn configuration
  | DeleteOutputDir path path
  | RunWebpack configuration
  | AugmentAppWithServiceWorker path path path string "string option"
  | OutputFn bool string

text \<open>An observable built by the orchestrator, with the calls made while it ran.\<close>

record 'a run = "'a observable" +
  effects :: "effect list"

record build_event =
  success :: bool

text \<open>\<^verbatim>\<open>BrowserBuilderOutput\<close> is \<^verbatim>\<open>BuilderOutput & { outputPath: string }\<close>.\<close>

record browser_builder_output = build_event +
  output_path :: string

text \<open>What the orchestrator emits last: a \<^verbatim>\<open>BuilderOutput\<close>, which has an
  \<^verbatim>\<open>outputPath\<close> when it is a \<^verbatim>\<open>BrowserBuilderOutput\<close>.\<close>

record builder_output = build_event +
  outputPath_of :: "string option"

text \<open>The optional hooks of the third argument: its keys \<^verbatim>\<open>config\<close>, \<^verbatim>\<open>output\<close> and
  \<^verbatim>\<open>logging\<close>, under the names the function gives them.\<close>

record transforms =
  configFn :: "(workspace \<Rightarrow> configuration \<Rightarrow> configuration observable) option"
  outputFn :: "(browser_builder_output \<Rightarrow> builder_output observable) option"
  loggingFn :: "logging_callback option"

subsection \<open>The collaborators\<close>

text \<open>
  What the file calls from other modules. The fragment providers and the path functions
  are functions of their arguments. The statistics formatters may throw. The output
  cleaner, the build runner and the hooks return observables; an exception of such a
  call inside a \<^verbatim>\<open>switchMap\<close> or \<^verbatim>\<open>concatMap\<close> function is the error of the observable
  and is modelled as an observable that fails at once. The call of the service-worker
  augmenter either throws (\<open>Inl\<close>) or returns a promise (\<open>Inr\<close>): the two differ, since
  line 208 handles the promise only. The two schedules give the order in which the
  sources of the two \<^verbatim>\<open>combineLatest\<close> deliver.
\<close>

record env =
  getCommonConfig :: "wco \<Rightarrow> configuration"
  getBrowserConfig :: "wco \<Rightarrow> configuration"
  getStylesConfig :: "wco \<Rightarrow> configuration"
  getStatsConfig :: "wco \<Rightarrow> configuration"
  getAotConfig :: "wco \<Rightarrow> configuration"
  getNonAotConfig :: "wco \<Rightarrow> configuration"
  getWorkerConfig :: "wco \<Rightarrow> configuration"
  statsToString :: "string \<Rightarrow> string option \<Rightarrow> js_error + string"
  statsWarningsToString :: "string \<Rightarrow> string option \<Rightarrow> js_error + string"
  statsErrorsToString :: "string \<Rightarrow> string option \<Rightarrow> js_error + string"
  normalize :: "string \<Rightarrow> path"
  resolve :: "path \<Rightarrow> path \<Rightarrow> path"
  path_resolve :: "string \<Rightarrow> string \<Rightarrow> string"
  loadWorkspace :: "path \<Rightarrow> workspace promise"
  configOptions :: "options \<Rightarrow> builder_context \<Rightarrow> workspace \<Rightarrow> wco list"
  webpackMerge :: "configuration list \<Rightarrow> configuration"
  deleteOutputDir :: "path \<Rightarrow> path \<Rightarrow> unit observable"
  runWebpack :: "configuration \<Rightarrow> builder_context \<Rightarrow> logging_callback \<Rightarrow> build_event observable"
  augmentAppWithServiceWorker ::
    "path \<Rightarrow> path \<Rightarrow> path \<Rightarrow> string \<Rightarrow> string option \<Rightarrow> js_error + unit promise"
  transformSchedule :: "nat list"
  buildSchedule :: "nat list"

section \<open>The logging adapter\<close>

text \<open>
  The callback is a sequence of calls, each of which may throw. \<open>call r k\<close> continues
  with \<open>k\<close> on the value of a call that returned and stops with its exception otherwise;
  \<open>log_line lvl method text rest\<close> calls a method of the logger and, when it returned,
  puts the line in front of what \<open>rest\<close> writes.
\<close>

definition throws :: "js_error \<Rightarrow> logged" where
  "throws e = \<lparr>lines = [], outcome = Inl e\<rparr>"

definition returns :: logged where
  "returns = \<lparr>lines = [], outcome = Inr ()\<rparr>"

definition call :: "js_error + 'a \<Rightarrow> ('a \<Rightarrow> logged) \<Rightarrow> logged" where
  "call r k = (case r of Inl e \<Rightarrow> throws e | Inr x \<Rightarrow> k x)"

definition log_line :: "level \<Rightarrow> (string \<Rightarrow> js_error + unit) \<Rightarrow> string \<Rightarrow> logged \<Rightarrow> logged" where
  "log_line lvl method text rest =
     (case method text of
        Inl e \<Rightarrow> throws e
      | Inr _ \<Rightarrow> rest\<lparr>lines := (lvl, text) # lines rest\<rparr>)"

text \<open>
  \<^verbatim>\<open>createBrowserLoggingCallback(verbose, logger)\<close>, lines 53 to 73. The callback has
  no \<^verbatim>\<open>try\<close>: an exception of a call it makes leaves it at once.
\<close>

definition createBrowserLoggingCallback :: "env \<Rightarrow> bool \<Rightarrow> logger \<Rightarrow> logging_callback" where
  "createBrowserLoggingCallback env verbose_flag logger_api = (\<lambda>st config.
     call (toJson st (stats config)) (\<lambda>json.
     call (if verbose_flag then toString st (stats config)
           else statsToString env json (stats config)) (\<lambda>text.
     log_line Info (info logger_api) text (
     call (hasWarnings st) (\<lambda>warnings.
     (if warnings
      then (\<lambda>rest. call (statsWarningsToString env json (stats config)) (\<lambda>text.
              log_line Warn (warn logger_api) text rest))
      else (\<lambda>rest. rest)) (
     call (hasErrors st) (\<lambda>errors.
     if errors
     then call (statsErrorsToString env json (stats config)) (\<lambda>text.
            log_line Err (error logger_api) text returns)
     else returns)))))))"

section \<open>The configuration assembler\<close>

text \<open>\<^verbatim>\<open>getAnalyticsConfig(wco, context)\<close>, lines 96 to 117. The category is
  \<^verbatim>\<open>undefined\<close> when the builder name has no colon.\<close>

definition getAnalyticsConfig :: "wco \<Rightarrow> builder_context \<Rightarrow> configuration" where
  "getAnalyticsConfig wco context =
     (case analytics context of
        Some sink \<Rightarrow>
          (let category =
             (case builder context of
                None \<Rightarrow> Some ''build''
              | Some b \<Rightarrow> index (split CHR '':'' (builderName b)) 1)
           in \<lparr>plugins = Some [NgBuildAnalyticsPlugin (projectRoot wco) sink category],
               stats = None, settings = []\<rparr>)
      | None \<Rightarrow> empty_configuration)"

text \<open>\<^verbatim>\<open>getCompilerConfig(wco)\<close>, lines 119 to 125.\<close>

definition getCompilerConfig :: "env \<Rightarrow> wco \<Rightarrow> configuration" where
  "getCompilerConfig env wco =
     (if truthy_str (main (buildOptions wco)) \<or> truthy_str (polyfills (buildOptions wco))
      then (if truthy_bool (aot (buildOptions wco)) then getAotConfig env wco
            else getNonAotConfig env wco)
      else empty_configuration)"

text \<open>The function that \<^verbatim>\<open>buildBrowserWebpackConfigFromContext\<close> hands to the
  generator, lines 83 to 91: the seven fragments, in order.\<close>

definition webpackPartialGenerator :: "env \<Rightarrow> builder_context \<Rightarrow> wco \<Rightarrow> configuration list" where
  "webpackPartialGenerator env context wco =
     [getCommonConfig env wco,
      getBrowserConfig env wco,
      getStylesConfig env wco,
      getStatsConfig env wco,
      getAnalyticsConfig wco context,
      getCompilerConfig env wco,
      if truthy_str (webWorkerTsConfig (buildOptions wco)) then getWorkerConfig env wco
      else empty_configuration]"

definition resolution_error :: js_error where
  "resolution_error = Error ''Must either have a target from the context or a default project.''"

text \<open>
  Modelled from the spec: \<^verbatim>\<open>generateBrowserWebpackConfigFromContext\<close> of
  \<^verbatim>\<open>../utils/webpack-browser-config\<close>, which the file imports and whose source is not at
  hand. The spec (4.1, Config Assembler) gives its contract: it fails with a resolution
  error if the target project cannot be determined (no explicit target and no default
  project in the workspace); otherwise it produces the ordered configuration list, one
  configuration per compilation variant, each merged from the fragments. Reading the
  workspace (\<open>loadWorkspace\<close>), the variants (\<open>configOptions\<close>) and the merge
  (\<open>webpackMerge\<close>) are collaborators.
\<close>

definition generateBrowserWebpackConfigFromContext ::
  "env \<Rightarrow> options \<Rightarrow> builder_context \<Rightarrow> (wco \<Rightarrow> configuration list)
     \<Rightarrow> (workspace \<times> configuration list) promise" where
  "generateBrowserWebpackConfigFromContext env options context generator =
     (case loadWorkspace env (normalize env (workspaceRoot context)) of
        Rejected e \<Rightarrow> Rejected e
      | Unsettled \<Rightarrow> Unsettled
      | Resolved workspace \<Rightarrow>
          if target context = None \<and> getDefaultProjectName workspace = None
          then Rejected resolution_error
          else Resolved (workspace,
                 map (\<lambda>wco. webpackMerge env (generator wco))
                   (configOptions env options context workspace)))"

text \<open>\<^verbatim>\<open>buildBrowserWebpackConfigFromContext(options, context, host)\<close>, lines 75 to 94.\<close>

definition buildBrowserWebpackConfigFromContext ::
  "env \<Rightarrow> options \<Rightarrow> builder_context \<Rightarrow> (workspace \<times> configuration list) promise" where
  "buildBrowserWebpackConfigFromContext env options context =
     generateBrowserWebpackConfigFromContext env options context
       (webpackPartialGenerator env context)"

section \<open>The operators of rxjs\<close>

text \<open>
  The operators the orchestrator uses, on observables as a subscriber sees them. The
  inner observables of \<^verbatim>\<open>switchMap\<close> and \<^verbatim>\<open>concatMap\<close> are taken not to overlap: an
  outer value arrives after the inner observable of the value before it has delivered
  what it delivers. The sources of \<^verbatim>\<open>combineLatest\<close> run concurrently, and the order
  in which they deliver is a schedule, given from outside.
\<close>

definition of_value :: "'a \<Rightarrow> 'a run" where
  "of_value x = \<lparr>emitted = [x], ending = Complete, effects = []\<rparr>"

definition throw_error :: "js_error \<Rightarrow> 'a run" where
  "throw_error e = \<lparr>emitted = [], ending = Throw e, effects = []\<rparr>"

text \<open>\<^verbatim>\<open>from(promise)\<close>: one value and completion, or the rejection as an error.\<close>

definition from_promise :: "'a promise \<Rightarrow> 'a run" where
  "from_promise p =
     (case p of
        Resolved x \<Rightarrow> of_value x
      | Rejected e \<Rightarrow> throw_error e
      | Unsettled \<Rightarrow> \<lparr>emitted = [], ending = Pending, effects = []\<rparr>)"

text \<open>The observable a collaborator returned, with the calls that produced it.\<close>

definition subscribe :: "effect list \<Rightarrow> 'a observable \<Rightarrow> 'a run" where
  "subscribe calls obs = \<lparr>emitted = emitted obs, ending = ending obs, effects = calls\<rparr>"

definition map_run :: "('a \<Rightarrow> 'b) \<Rightarrow> 'a run \<Rightarrow> 'b run" where
  "map_run f r = \<lparr>emitted = map f (emitted r), ending = ending r, effects = effects r\<rparr>"

definition then_run :: "'a run \<Rightarrow> 'a run \<Rightarrow> 'a run" where
  "then_run first rest =
     \<lparr>emitted = emitted first @ emitted rest, ending = ending rest,
      effects = effects first @ effects rest\<rparr>"

text \<open>How an operator ends while an inner observable stays open: with the error of
  the outer observable if it has one, and not at all otherwise.\<close>

fun while_open :: "ending \<Rightarrow> ending" where
  "while_open (Throw e) = Throw e"
| "while_open Complete = Pending"
| "while_open Pending = Pending"

text \<open>\<^verbatim>\<open>concatMap\<close>: the inner observables one after the other; an inner error ends
  the result, an inner observable that stays open keeps the later values waiting.\<close>

fun concat_all :: "('a \<Rightarrow> 'b run) \<Rightarrow> 'a list \<Rightarrow> ending \<Rightarrow> 'b run" where
  "concat_all f [] e = \<lparr>emitted = [], ending = e, effects = []\<rparr>"
| "concat_all f (x # xs) e =
     (case ending (f x) of
        Complete \<Rightarrow> then_run (f x) (concat_all f xs e)
      | Throw err \<Rightarrow> f x
      | Pending \<Rightarrow> (f x)\<lparr>ending := while_open e\<rparr>)"

definition concatMap :: "('a \<Rightarrow> 'b run) \<Rightarrow> 'a run \<Rightarrow> 'b run" where
  "concatMap f r =
     then_run \<lparr>emitted = [], ending = Complete, effects = effects r\<rparr>
       (concat_all f (emitted r) (ending r))"

text \<open>\<^verbatim>\<open>switchMap\<close>: as \<^verbatim>\<open>concatMap\<close>, but an outer value unsubscribes the inner
  observable that is still open.\<close>

fun switch_all :: "('a \<Rightarrow> 'b run) \<Rightarrow> 'a list \<Rightarrow> ending \<Rightarrow> 'b run" where
  "switch_all f [] e = \<lparr>emitted = [], ending = e, effects = []\<rparr>"
| "switch_all f (x # xs) e =
     (case ending (f x) of
        Complete \<Rightarrow> then_run (f x) (switch_all f xs e)
      | Throw err \<Rightarrow> f x
      | Pending \<Rightarrow>
          (if xs = [] then (f x)\<lparr>ending := while_open e\<rparr>
           else then_run (f x) (switch_all f xs e)))"

definition switchMap :: "('a \<Rightarrow> 'b run) \<Rightarrow> 'a run \<Rightarrow> 'b run" where
  "switchMap f r =
     then_run \<lparr>emitted = [], ending = Complete, effects = effects r\<rparr>
       (switch_all f (emitted r) (ending r))"

text \<open>
  \<^verbatim>\<open>combineLatest\<close> of rxjs 6. Each source delivers its values and then its end;
  the schedule names, step by step, the source that delivers next. The result emits
  the array of the latest values at each value delivered once every source has
  delivered one, completes when the last source completes, and fails with the first
  error. Of no source at all it completes at once.
\<close>

datatype 'a notification = Next 'a | Done | Failed js_error

definition notifications :: "'a observable \<Rightarrow> 'a notification list" where
  "notifications obs =
     map Next (emitted obs) @
     (case ending obs of Complete \<Rightarrow> [Done] | Throw e \<Rightarrow> [Failed e] | Pending \<Rightarrow> [])"

fun combine ::
  "nat list \<Rightarrow> 'a notification list list \<Rightarrow> 'a option list \<Rightarrow> nat \<Rightarrow> 'a list observable" where
  "combine [] sources latest active = \<lparr>emitted = [], ending = Pending\<rparr>"
| "combine (i # schedule) sources latest active =
     (if i < length sources then
        (case sources ! i of
           [] \<Rightarrow> combine schedule sources latest active
         | Next v # rest \<Rightarrow>
             (let later = combine schedule (sources[i := rest]) (latest[i := Some v]) active
              in if list_all (\<lambda>l. l \<noteq> None) (latest[i := Some v])
                 then later\<lparr>emitted := map the (latest[i := Some v]) # emitted later\<rparr>
                 else later)
         | Done # rest \<Rightarrow>
             (if active \<le> 1 then \<lparr>emitted = [], ending = Complete\<rparr>
              else combine schedule (sources[i := []]) latest (active - 1))
         | Failed e # rest \<Rightarrow> \<lparr>emitted = [], ending = Throw e\<rparr>)
      else combine schedule sources latest active)"

definition combineLatest :: "nat list \<Rightarrow> 'a observable list \<Rightarrow> 'a list observable" where
  "combineLatest schedule observables =
     (if observables = [] then \<lparr>emitted = [], ending = Complete\<rparr>
      else combine schedule (map notifications observables)
             (replicate (length observables) None) (length observables))"

section \<open>The build orchestrator\<close>

text \<open>\<^verbatim>\<open>Array.prototype.every\<close>: \<^verbatim>\<open>true\<close> for the empty array, \<^verbatim>\<open>false\<close> at the first
  element that fails the test.\<close>

fun every :: "('a \<Rightarrow> bool) \<Rightarrow> 'a list \<Rightarrow> bool" where
  "every p [] = True"
| "every p (x # xs) = (if p x then every p xs else False)"

text \<open>Line 198: \<^verbatim>\<open>map(buildEvents => ({ success: buildEvents.every(r => r.success) }))\<close>.\<close>

definition aggregate :: "build_event list \<Rightarrow> build_event" where
  "aggregate buildEvents = \<lparr>success = every (\<lambda>r. success r) buildEvents\<rparr>"

text \<open>
  Lines 199 to 212, the function given to \<^verbatim>\<open>concatMap\<close>. The call of the augmenter
  either throws or returns a promise. The call stands in no \<^verbatim>\<open>try\<close>: an exception of
  the call itself leaves the function, and \<^verbatim>\<open>concatMap\<close> makes it the error of its
  result. A promise that the call returned goes through
  \<^verbatim>\<open>.then(() => ({ success: true }), () => ({ success: false }))\<close>, which settles with a
  value whether that promise resolves or rejects.
\<close>

definition postProcess ::
  "env \<Rightarrow> options \<Rightarrow> path \<Rightarrow> path \<Rightarrow> build_event \<Rightarrow> build_event run" where
  "postProcess env options root_path project_path buildEvent =
     (if success buildEvent \<and> \<not> truthy_bool (watch options) \<and> truthy_bool (serviceWorker options)
      then
        (let out = resolve env root_path (normalize env (outputPath options));
             href = or_else (baseHref options) ''/''
         in then_run
              \<lparr>emitted = [], ending = Complete,
               effects = [AugmentAppWithServiceWorker root_path project_path out href
                            (ngswConfigPath options)]\<rparr>
              (case augmentAppWithServiceWorker env root_path project_path out href
                      (ngswConfigPath options) of
                 Inl e \<Rightarrow> throw_error e
               | Inr promise \<Rightarrow>
                   from_promise
                     (case promise of
                        Resolved _ \<Rightarrow> Resolved \<lparr>success = True\<rparr>
                      | Rejected _ \<Rightarrow> Resolved \<lparr>success = False\<rparr>
                      | Unsettled \<Rightarrow> Unsettled)))
      else of_value buildEvent)"

text \<open>Lines 213 to 217: the event with the output path added.\<close>

definition withOutputPath ::
  "env \<Rightarrow> options \<Rightarrow> builder_context \<Rightarrow> build_event \<Rightarrow> browser_builder_output" where
  "withOutputPath env options context event =
     \<lparr>success = success event,
      output_path = path_resolve env (workspaceRoot context) (outputPath options)\<rparr>"

text \<open>Line 218: \<^verbatim>\<open>concatMap(output => outputFn ? outputFn(output) : of(output))\<close>.\<close>

definition emit ::
  "(browser_builder_output \<Rightarrow> builder_output observable) option
     \<Rightarrow> browser_builder_output \<Rightarrow> builder_output run" where
  "emit transform out =
     (case transform of
        Some f \<Rightarrow> subscribe [OutputFn (success out) (output_path out)] (f out)
      | None \<Rightarrow> of_value \<lparr>success = success out, outputPath_of = Some (output_path out)\<rparr>)"

text \<open>Lines 154 to 162: the configurations through the caller's transform, if any.\<close>

definition transformConfigs ::
  "env \<Rightarrow> transforms \<Rightarrow> workspace \<times> configuration list
     \<Rightarrow> (workspace \<times> configuration list) run" where
  "transformConfigs env hooks wc =
     (case configFn hooks of
        Some f \<Rightarrow>
          map_run (\<lambda>configs. (fst wc, configs))
            (subscribe (map ConfigFn (snd wc))
               (combineLatest (transformSchedule env) (map (f (fst wc)) (snd wc))))
      | None \<Rightarrow> of_value wc)"

text \<open>Lines 163 to 173: the clean step.\<close>

definition clean ::
  "env \<Rightarrow> options \<Rightarrow> builder_context \<Rightarrow> workspace \<times> configuration list
     \<Rightarrow> (workspace \<times> configuration list) run" where
  "clean env options context wc =
     (if truthy_bool (deleteOutputPath options)
      then map_run (\<lambda>_. wc)
             (subscribe
                [DeleteOutputDir (normalize env (workspaceRoot context))
                   (normalize env (outputPath options))]
                (deleteOutputDir env (normalize env (workspaceRoot context))
                   (normalize env (outputPath options))))
      else of_value wc)"

text \<open>Lines 175 and 176: the name of the project.\<close>

definition projectNameOf :: "builder_context \<Rightarrow> workspace \<Rightarrow> string option" where
  "projectNameOf context workspace =
     (case target context of
        Some t \<Rightarrow> Some (project t)
      | None \<Rightarrow> getDefaultProjectName workspace)"

text \<open>
  Lines 187 to 189: one build per configuration. \<^verbatim>\<open>configs.map(config =>
  runWebpack(...))\<close> calls the runner for every configuration before
  \<^verbatim>\<open>combineLatest\<close> subscribes.
\<close>

definition runBuilds ::
  "env \<Rightarrow> builder_context \<Rightarrow> logging_callback \<Rightarrow> configuration list
     \<Rightarrow> build_event list observable" where
  "runBuilds env context callback configs =
     combineLatest (buildSchedule env)
       (map (\<lambda>config. runWebpack env config context callback) configs)"

text \<open>
  Lines 174 to 220: the project, the builds, the aggregate, the post-processing and
  the result. The \<^verbatim>\<open>switchMap\<close> of lines 191 to 197 hands each array on as it is (its
  branch for two build events is empty).
\<close>

definition build ::
  "env \<Rightarrow> options \<Rightarrow> builder_context \<Rightarrow> transforms \<Rightarrow> logging_callback \<Rightarrow> path
     \<Rightarrow> workspace \<times> configuration list \<Rightarrow> builder_output run" where
  "build env options context hooks callback root_path wc =
     (if \<not> truthy_str (projectNameOf context (fst wc)) then throw_error resolution_error
      else
        (case getProject (fst wc) (the (projectNameOf context (fst wc))) of
           Inl e \<Rightarrow> throw_error e
         | Inr p \<Rightarrow>
             (let project_path =
                resolve env (workspace_root (fst wc)) (normalize env (project_root p))
              in concatMap (emit (outputFn hooks))
                   (map_run (withOutputPath env options context)
                     (concatMap (postProcess env options root_path project_path)
                       (map_run aggregate
                         (switchMap of_value
                           (subscribe (map RunWebpack (snd wc))
                             (runBuilds env context callback (snd wc))))))))))"

text \<open>Lines 147 and 148: the caller's logging callback, or the one of this file.\<close>

definition loggingCallback :: "env \<Rightarrow> options \<Rightarrow> builder_context \<Rightarrow> transforms \<Rightarrow> logging_callback" where
  "loggingCallback env options context hooks =
     (case loggingFn hooks of
        Some f \<Rightarrow> f
      | None \<Rightarrow>
          createBrowserLoggingCallback env (truthy_bool (verbose options)) (logger context))"

text \<open>\<^verbatim>\<open>buildWebpackBrowser(options, context, transforms)\<close>, lines 133 to 222.\<close>

definition buildWebpackBrowser ::
  "env \<Rightarrow> options \<Rightarrow> builder_context \<Rightarrow> transforms \<Rightarrow> builder_output run" where
  "buildWebpackBrowser env options context hooks =
     switchMap
       (build env options context hooks (loggingCallback env options context hooks)
          (normalize env (workspaceRoot context)))
       (switchMap (clean env options context)
         (switchMap (transformConfigs env hooks)
           (switchMap
              (\<lambda>_. from_promise (buildBrowserWebpackConfigFromContext env options context))
              (of_value ()))))"

section \<open>What the theorems speak of\<close>

text \<open>Post-processing is due when watch mode is not requested and the service worker
  is (line 200, without the success of the build).\<close>

definition augmenting :: "options \<Rightarrow> bool" where
  "augmenting options \<longleftrightarrow>
     \<not> truthy_bool (watch options) \<and> truthy_bool (serviceWorker options)"

text \<open>The arguments of the augmenter, lines 201 to 207, for a project of the
  workspace: the call as an effect, and what the call gives (an exception or a promise).\<close>

definition augmenterCall ::
  "env \<Rightarrow> options \<Rightarrow> builder_context \<Rightarrow> workspace \<Rightarrow> project_entry \<Rightarrow> effect" where
  "augmenterCall env options context workspace p =
     AugmentAppWithServiceWorker (normalize env (workspaceRoot context))
       (resolve env (workspace_root workspace) (normalize env (project_root p)))
       (resolve env (normalize env (workspaceRoot context)) (normalize env (outputPath options)))
       (or_else (baseHref options) ''/'') (ngswConfigPath options)"

definition augmenterResult ::
  "env \<Rightarrow> options \<Rightarrow> builder_context \<Rightarrow> workspace \<Rightarrow> project_entry
     \<Rightarrow> js_error + unit promise" where
  "augmenterResult env options context workspace p =
     augmentAppWithServiceWorker env (normalize env (workspaceRoot context))
       (resolve env (workspace_root workspace) (normalize env (project_root p)))
       (resolve env (normalize env (workspaceRoot context)) (normalize env (outputPath options)))
       (or_else (baseHref options) ''/'') (ngswConfigPath options)"

text \<open>
  The results of the build stage before line 218, for a project that the workspace has
  and such an augmenter: one result per array of build events, an end that is the end
  of the builds, and a call of the augmenter for every array whose events all succeeded.
\<close>

definition results_before_emit ::
  "env \<Rightarrow> options \<Rightarrow> builder_context \<Rightarrow> workspace \<Rightarrow> project_entry
     \<Rightarrow> effect list \<Rightarrow> build_event list observable \<Rightarrow> browser_builder_output run" where
  "results_before_emit env options context workspace p calls builds =
     \<lparr>emitted = map (\<lambda>buildEvents. \<lparr>success = (every success buildEvents \<and>
            (augmenting options \<longrightarrow>
               augmenterResult env options context workspace p = Inr (Resolved ()))),
          output_path = path_resolve env (workspaceRoot context) (outputPath options)\<rparr>)
          (emitted builds),
      ending = ending builds,
      effects = calls @
        concat (map (\<lambda>buildEvents. if every success buildEvents \<and> augmenting options
                  then [augmenterCall env options context workspace p] else [])
          (emitted builds))\<rparr>"

text \<open>The calls that a run may make, with the arguments it may make them with.\<close>

definition expected_effect :: "env \<Rightarrow> options \<Rightarrow> builder_context \<Rightarrow> effect \<Rightarrow> bool" where
  "expected_effect env options context e =
     (case e of
        ConfigFn c \<Rightarrow> True
      | DeleteOutputDir r p \<Rightarrow> truthy_bool (deleteOutputPath options)
      | RunWebpack c \<Rightarrow> True
      | AugmentAppWithServiceWorker r p out href ngsw \<Rightarrow>
          augmenting options \<and>
          r = normalize env (workspaceRoot context) \<and>
          out = resolve env (normalize env (workspaceRoot context))
                  (normalize env (outputPath options)) \<and>
          href = or_else (baseHref options) ''/'' \<and>
          ngsw = ngswConfigPath options
      | OutputFn s p \<Rightarrow> p = path_resolve env (workspaceRoot context) (outputPath options))"

fun is_augmentation :: "effect \<Rightarrow> bool" where
  "is_augmentation (AugmentAppWithServiceWorker r p out href ngsw) = True"
| "is_augmentation _ = False"

text \<open>The base href of a call of the augmenter.\<close>

fun base_href_of :: "effect \<Rightarrow> string option" where
  "base_href_of (AugmentAppWithServiceWorker r p out href ngsw) = Some href"
| "base_href_of _ = None"

section \<open>A sample project\<close>

text \<open>A workspace with one project, a runner whose build succeeds, an augmenter whose
  promise rejects, and path functions that join with a slash: the inputs of the examples.\<close>

definition sample_options :: options where
  "sample_options =
     \<lparr>outputPath = ''dist'', deleteOutputPath = Some True, verbose = None,
      watch = Some False, serviceWorker = Some True, aot = Some True, baseHref = None,
      ngswConfigPath = None, main = Some ''src/main.ts'', polyfills = None,
      webWorkerTsConfig = None\<rparr>"

definition sample_logger :: logger where
  "sample_logger = \<lparr>info = (\<lambda>_. Inr ()), warn = (\<lambda>_. Inr ()), error = (\<lambda>_. Inr ())\<rparr>"


definition sample_context :: builder_context where
  "sample_context =
     \<lparr>workspaceRoot = ''/ws'', target = Some \<lparr>project = ''app''\<rparr>, analytics = None,
      builder = None, logger = sample_logger\<rparr>"

definition sample_workspace :: workspace where
  "sample_workspace =
     \<lparr>workspace_root = ''/ws'', getDefaultProjectName = None,
      projects = [(''app'', \<lparr>project_root = ''app''\<rparr>)]\<rparr>"

definition sample_wco :: "options \<Rightarrow> wco" where
  "sample_wco options = \<lparr>wco_root = ''/ws'', projectRoot = ''/ws/app'', buildOptions = options\<rparr>"

definition aot_fragment :: configuration where
  "aot_fragment =
     \<lparr>plugins = Some [Plugin ''AngularCompilerPlugin''], stats = None,
      settings = [(''aot'', ''true'')]\<rparr>"

definition non_aot_fragment :: configuration where
  "non_aot_fragment =
     \<lparr>plugins = Some [Plugin ''AngularCompilerPlugin''], stats = None,
      settings = [(''aot'', ''false'')]\<rparr>"

definition sample_merge :: "configuration list \<Rightarrow> configuration" where
  "sample_merge fragments =
     \<lparr>plugins = Some (concat (map (\<lambda>f. case plugins f of None \<Rightarrow> [] | Some ps \<Rightarrow> ps) fragments)),
      stats = Some ''errors-only'',
      settings = concat (map settings fragments)\<rparr>"

definition sample_config :: configuration where
  "sample_config =
     \<lparr>plugins = Some [Plugin ''IndexHtmlWebpackPlugin'', Plugin ''AngularCompilerPlugin''],
      stats = Some ''errors-only'',
      settings = [(''mode'', ''production''), (''styles'', ''css''), (''aot'', ''true'')]\<rparr>"

definition sample_env :: env where
  "sample_env =
     \<lparr>getCommonConfig = (\<lambda>_. \<lparr>plugins = None, stats = None,
         settings = [(''mode'', ''production'')]\<rparr>),
      getBrowserConfig = (\<lambda>_. \<lparr>plugins = Some [Plugin ''IndexHtmlWebpackPlugin''], stats = None,
         settings = []\<rparr>),
      getStylesConfig = (\<lambda>_. \<lparr>plugins = None, stats = None, settings = [(''styles'', ''css'')]\<rparr>),
      getStatsConfig = (\<lambda>_. \<lparr>plugins = None, stats = Some ''errors-only'', settings = []\<rparr>),
      getAotConfig = (\<lambda>_. aot_fragment),
      getNonAotConfig = (\<lambda>_. non_aot_fragment),
      getWorkerConfig = (\<lambda>_. \<lparr>plugins = Some [Plugin ''WorkerPlugin''], stats = None,
         settings = []\<rparr>),
      statsToString = (\<lambda>json opts. Inr ''chunk {main} main.js''),
      statsWarningsToString = (\<lambda>json opts. Inr ''WARNING in budgets''),
      statsErrorsToString = (\<lambda>json opts. Inr ''ERROR in src/main.ts''),
      normalize = (\<lambda>p. p),
      resolve = (\<lambda>a b. a @ ''/'' @ b),
      path_resolve = (\<lambda>a b. a @ ''/'' @ b),
      loadWorkspace = (\<lambda>_. Resolved sample_workspace),
      configOptions = (\<lambda>options context workspace. [sample_wco options]),
      webpackMerge = sample_merge,
      deleteOutputDir = (\<lambda>r p. \<lparr>emitted = [()], ending = Complete\<rparr>),
      runWebpack = (\<lambda>config context callback. \<lparr>emitted = [\<lparr>success = True\<rparr>], ending = Complete\<rparr>),
      augmentAppWithServiceWorker =
        (\<lambda>r p out href ngsw. Inr (Rejected (Error ''ngsw-config.json''))),
      transformSchedule = [0, 0],
      buildSchedule = [0, 0]\<rparr>"

definition no_hooks :: transforms where
  "no_hooks = \<lparr>configFn = None, outputFn = None, loggingFn = None\<rparr>"

text \<open>Statistics of a build with warnings and without errors.\<close>

definition sample_stats :: webpack_stats where
  "sample_stats =
     \<lparr>toJson = (\<lambda>opts. Inr ''{}''), toString = (\<lambda>opts. Inr ''Hash: 5f2c''),
      hasWarnings = Inr True, hasErrors = Inr False\<rparr>"

text \<open>Variants of the sample: watch mode, no service worker, an empty and a
  configured base href, and hooks that hand every value on.\<close>

definition echo_hooks :: transforms where
  "echo_hooks =
     \<lparr>configFn = Some (\<lambda>workspace config. \<lparr>emitted = [config], ending = Complete\<rparr>),
      outputFn = Some (\<lambda>out. \<lparr>emitted = [\<lparr>success = success out, outputPath_of = None\<rparr>],
        ending = Complete\<rparr>),
      loggingFn = None\<rparr>"

definition watching_options :: options where
  "watching_options = sample_options\<lparr>watch := Some True\<rparr>"

definition plain_options :: options where
  "plain_options = sample_options\<lparr>serviceWorker := None\<rparr>"

definition empty_href_options :: options where
  "empty_href_options = sample_options\<lparr>baseHref := Some []\<rparr>"

definition app_href_options :: options where
  "app_href_options = sample_options\<lparr>baseHref := Some ''/app/''\<rparr>"


definition broken_stats :: webpack_stats where
  "broken_stats = sample_stats\<lparr>toJson := (\<lambda>opts. Inl (Error ''circular structure''))\<rparr>"

text \<open>The sample built twice, as for differential loading: the second build
  fails.\<close>

definition legacy_config :: configuration where
  "legacy_config =
     \<lparr>plugins = Some [Plugin ''IndexHtmlWebpackPlugin'', Plugin ''AngularCompilerPlugin''],
      stats = Some ''errors-only'',
      settings = [(''mode'', ''production''), (''styles'', ''css''), (''aot'', ''false'')]\<rparr>"

definition differential_env :: env where
  "differential_env =
     sample_env\<lparr>configOptions :=
         (\<lambda>options context workspace. [sample_wco options, sample_wco (options\<lparr>aot := None\<rparr>)]),
       runWebpack :=
         (\<lambda>config context callback.
            \<lparr>emitted = [\<lparr>success = (config = sample_config)\<rparr>], ending = Complete\<rparr>),
       buildSchedule := [0, 1, 0, 1]\<rparr>"


definition error_stats :: webpack_stats where
  "error_stats = sample_stats\<lparr>hasWarnings := Inr False, hasErrors := Inr True\<rparr>"

section \<open>Properties of the operators\<close>

lemma every_iff: "every p xs \<longleftrightarrow> (\<forall>x \<in> set xs. p x)"
  by (induction xs) auto

lemma effects_from_promise [simp]: "effects (from_promise p) = []"
  by (simp add: from_promise_def of_value_def throw_error_def split: promise.splits)

text \<open>Every call and every value of a mapped observable comes from one of the inner
  observables (or, for a call, from the outer one).\<close>

lemma effects_concat_all:
  "e \<in> set (effects (concat_all f xs en)) \<Longrightarrow> \<exists>x \<in> set xs. e \<in> set (effects (f x))"
  by (induction xs) (auto simp: then_run_def split: ending.splits)

lemma effects_switch_all:
  "e \<in> set (effects (switch_all f xs en)) \<Longrightarrow> \<exists>x \<in> set xs. e \<in> set (effects (f x))"
  by (induction xs) (auto simp: then_run_def split: ending.splits if_splits)

lemma emitted_concat_all:
  "y \<in> set (emitted (concat_all f xs en)) \<Longrightarrow> \<exists>x \<in> set xs. y \<in> set (emitted (f x))"
  by (induction xs) (auto simp: then_run_def split: ending.splits)

lemma emitted_switch_all:
  "y \<in> set (emitted (switch_all f xs en)) \<Longrightarrow> \<exists>x \<in> set xs. y \<in> set (emitted (f x))"
  by (induction xs) (auto simp: then_run_def split: ending.splits if_splits)

lemma effects_concatMap:
  "e \<in> set (effects (concatMap f r)) \<Longrightarrow>
     e \<in> set (effects r) \<or> (\<exists>x \<in> set (emitted r). e \<in> set (effects (f x)))"
  by (auto simp: concatMap_def then_run_def dest: effects_concat_all)

lemma effects_switchMap:
  "e \<in> set (effects (switchMap f r)) \<Longrightarrow>
     e \<in> set (effects r) \<or> (\<exists>x \<in> set (emitted r). e \<in> set (effects (f x)))"
  by (auto simp: switchMap_def then_run_def dest: effects_switch_all)

lemma emitted_concatMap:
  "y \<in> set (emitted (concatMap f r)) \<Longrightarrow> \<exists>x \<in> set (emitted r). y \<in> set (emitted (f x))"
  by (auto simp: concatMap_def then_run_def dest: emitted_concat_all)

lemma emitted_switchMap:
  "y \<in> set (emitted (switchMap f r)) \<Longrightarrow> \<exists>x \<in> set (emitted r). y \<in> set (emitted (f x))"
  by (auto simp: switchMap_def then_run_def dest: emitted_switch_all)

text \<open>When every inner observable completes, the result is their concatenation and
  ends as the outer observable does.\<close>

lemma concat_all_complete:
  "(\<And>x. x \<in> set xs \<Longrightarrow> ending (f x) = Complete) \<Longrightarrow>
   concat_all f xs e =
     \<lparr>emitted = concat (map (\<lambda>x. emitted (f x)) xs), ending = e,
      effects = concat (map (\<lambda>x. effects (f x)) xs)\<rparr>"
  by (induction xs) (simp_all add: then_run_def)

lemma switch_all_complete:
  "(\<And>x. x \<in> set xs \<Longrightarrow> ending (f x) = Complete) \<Longrightarrow>
   switch_all f xs e =
     \<lparr>emitted = concat (map (\<lambda>x. emitted (f x)) xs), ending = e,
      effects = concat (map (\<lambda>x. effects (f x)) xs)\<rparr>"
  by (induction xs) (simp_all add: then_run_def)

lemma concatMap_complete:
  "(\<And>x. x \<in> set (emitted r) \<Longrightarrow> ending (f x) = Complete) \<Longrightarrow>
   concatMap f r =
     \<lparr>emitted = concat (map (\<lambda>x. emitted (f x)) (emitted r)), ending = ending r,
      effects = effects r @ concat (map (\<lambda>x. effects (f x)) (emitted r))\<rparr>"
  by (simp add: concatMap_def concat_all_complete then_run_def)

lemma switchMap_of_value: "switchMap of_value r = r"
  by (simp add: switchMap_def switch_all_complete of_value_def then_run_def)

lemma switchMap_on_of_value: "switchMap f (of_value x) = f x"
  by (cases "ending (f x)") (auto simp add: switchMap_def of_value_def then_run_def)

lemma switchMap_throw_error: "switchMap f (throw_error e) = throw_error e"
  by (simp add: switchMap_def throw_error_def then_run_def)

lemma switchMap_single:
  "switchMap f \<lparr>emitted = [x], ending = Complete, effects = es\<rparr> =
     (f x)\<lparr>effects := es @ effects (f x)\<rparr>"
  by (cases "ending (f x)") (auto simp: switchMap_def then_run_def)

section \<open>Properties of the stages\<close>

lemma effects_postProcess:
  "e \<in> set (effects (postProcess env options (normalize env (workspaceRoot context)) pp ev))
     \<Longrightarrow> expected_effect env options context e"
  by (auto simp: postProcess_def expected_effect_def augmenting_def then_run_def of_value_def
      throw_error_def Let_def split: if_splits sum.splits)

lemma effects_emit:
  "e \<in> set (effects (emit tr (withOutputPath env options context ev)))
     \<Longrightarrow> expected_effect env options context e"
  by (auto simp: emit_def expected_effect_def subscribe_def of_value_def withOutputPath_def
      split: option.splits)

lemma effects_build:
  "e \<in> set (effects (build env options context hooks cb (normalize env (workspaceRoot context)) wc))
     \<Longrightarrow> expected_effect env options context e"
  unfolding build_def Let_def
  apply (auto simp: throw_error_def split: if_splits sum.splits)
  apply (drule effects_concatMap)
  apply (erule disjE)
   apply (simp add: map_run_def)
   apply (drule effects_concatMap)
   apply (erule disjE)
    apply (simp add: map_run_def)
    apply (drule effects_switchMap)
    apply (auto simp: subscribe_def of_value_def expected_effect_def map_run_def
      dest: effects_postProcess effects_emit)
  done

lemma effects_clean:
  "e \<in> set (effects (clean env options context wc)) \<Longrightarrow> expected_effect env options context e"
  by (auto simp: clean_def expected_effect_def map_run_def subscribe_def of_value_def
      split: if_splits)

lemma effects_transformConfigs:
  "e \<in> set (effects (transformConfigs env hooks wc)) \<Longrightarrow> expected_effect env options context e"
  by (auto simp: transformConfigs_def expected_effect_def map_run_def subscribe_def of_value_def
      split: option.splits)

text \<open>Every call of a run is one of the expected calls.\<close>

lemma effects_buildWebpackBrowser:
  assumes "e \<in> set (effects (buildWebpackBrowser env options context hooks))"
  shows "expected_effect env options context e"
proof -
  let ?s0 = "switchMap
    (\<lambda>_. from_promise (buildBrowserWebpackConfigFromContext env options context)) (of_value ())"
  let ?s1 = "switchMap (transformConfigs env hooks) ?s0"
  let ?s2 = "switchMap (clean env options context) ?s1"
  have e0: "effects ?s0 = []"
    by (auto simp: switchMap_def of_value_def then_run_def split: ending.splits)
  have e1: "x \<in> set (effects ?s1) \<Longrightarrow> expected_effect env options context x" for x
    using effects_switchMap [of x "transformConfigs env hooks" ?s0] e0
    by (auto dest: effects_transformConfigs)
  have e2: "x \<in> set (effects ?s2) \<Longrightarrow> expected_effect env options context x" for x
    using effects_switchMap [of x "clean env options context" ?s1] e1
    by (auto dest: effects_clean)
  from assms show ?thesis
    unfolding buildWebpackBrowser_def
    using effects_switchMap [of e _ ?s2] e2 by (auto dest: effects_build)
qed

lemma emitted_build:
  assumes "outputFn hooks = None"
    and "r \<in> set (emitted (build env options context hooks cb rp wc))"
  shows "outputPath_of r = Some (path_resolve env (workspaceRoot context) (outputPath options))"
  using assms unfolding build_def Let_def
  by (auto simp: throw_error_def emit_def of_value_def map_run_def withOutputPath_def
      split: if_splits sum.splits dest!: emitted_concatMap)

lemma emitted_buildWebpackBrowser:
  assumes "outputFn hooks = None"
    and "r \<in> set (emitted (buildWebpackBrowser env options context hooks))"
  shows "outputPath_of r = Some (path_resolve env (workspaceRoot context) (outputPath options))"
  using assms unfolding buildWebpackBrowser_def
  by (auto dest!: emitted_switchMap dest: emitted_build)

text \<open>Post-processing with an augmenter that, where it is called, returns a promise
  that settles: one event, whose flag is the flag of the build unless the augmenter
  was called and its promise rejected.\<close>

lemma postProcess_settled:
  assumes "augmenting options \<longrightarrow>
      (\<exists>q. augmenterResult env options context workspace p = Inr q \<and> q \<noteq> Unsettled)"
  shows "postProcess env options (normalize env (workspaceRoot context))
           (resolve env (workspace_root workspace) (normalize env (project_root p))) ev =
     \<lparr>emitted = [\<lparr>success = (success ev \<and>
          (augmenting options \<longrightarrow>
             augmenterResult env options context workspace p = Inr (Resolved ())))\<rparr>],
      ending = Complete,
      effects = (if success ev \<and> augmenting options
                 then [augmenterCall env options context workspace p] else [])\<rparr>"
proof (cases "success ev \<and> augmenting options")
  case False
  then show ?thesis
    by (auto simp: postProcess_def augmenting_def of_value_def)
next
  case True
  with assms obtain q where q: "augmenterResult env options context workspace p = Inr q"
    "q \<noteq> Unsettled"
    by blast
  from True q show ?thesis
    by (cases q)
       (simp_all add: postProcess_def augmenterResult_def augmenterCall_def augmenting_def
          from_promise_def of_value_def then_run_def)
qed

lemma concatMap_effects_in_front:
  "(concatMap f r)\<lparr>effects := es @ effects (concatMap f r)\<rparr> =
     concatMap f (r\<lparr>effects := es @ effects r\<rparr>)"
  by (simp add: concatMap_def then_run_def)

lemma concatMap_emit_None:
  "concatMap (emit None) r =
     \<lparr>emitted = map (\<lambda>out. \<lparr>success = success out, outputPath_of = Some (output_path out)\<rparr>)
        (emitted r),
      ending = ending r, effects = effects r\<rparr>"
  by (subst concatMap_complete) (simp_all add: emit_def of_value_def o_def)

lemma build_normal_form:
  assumes proj: "truthy_str (projectNameOf context workspace)"
      "getProject workspace (the (projectNameOf context workspace)) = Inr p"
    and sw: "augmenting options \<longrightarrow>
      (\<exists>q. augmenterResult env options context workspace p = Inr q \<and> q \<noteq> Unsettled)"
  shows "build env options context hooks callback (normalize env (workspaceRoot context))
           (workspace, configs) =
     concatMap (emit (outputFn hooks))
       (results_before_emit env options context workspace p (map RunWebpack configs)
          (runBuilds env context callback configs))"
proof -
  let ?pp = "resolve env (workspace_root workspace) (normalize env (project_root p))"
  let ?post = "postProcess env options (normalize env (workspaceRoot context)) ?pp"
  let ?r1 = "map_run aggregate (switchMap of_value
      (subscribe (map RunWebpack configs) (runBuilds env context callback configs)))"
  have r1: "?r1 = \<lparr>emitted = map aggregate (emitted (runBuilds env context callback configs)),
      ending = ending (runBuilds env context callback configs),
      effects = map RunWebpack configs\<rparr>"
    by (simp add: switchMap_of_value map_run_def subscribe_def)
  have r2: "map_run (withOutputPath env options context) (concatMap ?post ?r1) =
      results_before_emit env options context workspace p (map RunWebpack configs)
        (runBuilds env context callback configs)"
    unfolding r1
    by (subst concatMap_complete)
       (simp_all add: postProcess_settled [OF sw] o_def aggregate_def map_run_def
          withOutputPath_def results_before_emit_def)
  show ?thesis
    using proj by (simp add: build_def Let_def r2)
qed

text \<open>
  A run in which the configurations were assembled, the transform stage delivered one
  configuration list, the clean step (if requested) completed, the workspace has the
  project and the augmenter, where it is called, returns a promise that settles: the
  run is line 218 applied to the results above.
\<close>

lemma buildWebpackBrowser_normal_form:
  assumes cfg: "buildBrowserWebpackConfigFromContext env options context =
        Resolved (workspace, configs)"
    and transformed: "transformConfigs env hooks (workspace, configs) =
        \<lparr>emitted = [(workspace, transformed)], ending = Complete, effects = calls\<rparr>"
    and cleaned: "truthy_bool (deleteOutputPath options) \<longrightarrow>
        deleteOutputDir env (normalize env (workspaceRoot context))
          (normalize env (outputPath options)) = \<lparr>emitted = [()], ending = Complete\<rparr>"
    and proj: "truthy_str (projectNameOf context workspace)"
      "getProject workspace (the (projectNameOf context workspace)) = Inr p"
    and sw: "augmenting options \<longrightarrow>
      (\<exists>q. augmenterResult env options context workspace p = Inr q \<and> q \<noteq> Unsettled)"
  shows "buildWebpackBrowser env options context hooks =
     concatMap (emit (outputFn hooks))
       (results_before_emit env options context workspace p
          (calls @
           (if truthy_bool (deleteOutputPath options)
            then [DeleteOutputDir (normalize env (workspaceRoot context))
                    (normalize env (outputPath options))] else []) @
           map RunWebpack transformed)
          (runBuilds env context (loggingCallback env options context hooks) transformed))"
proof -
  let ?wc = "(workspace, configs)"
  let ?wt = "(workspace, transformed)"
  let ?cleaning = "if truthy_bool (deleteOutputPath options)
         then [DeleteOutputDir (normalize env (workspaceRoot context))
                 (normalize env (outputPath options))] else []"
  have s0: "switchMap
      (\<lambda>_. from_promise (buildBrowserWebpackConfigFromContext env options context))
      (of_value ()) = of_value ?wc"
    by (simp add: switchMap_on_of_value cfg from_promise_def)
  have s1: "switchMap (transformConfigs env hooks) (of_value ?wc) =
      \<lparr>emitted = [?wt], ending = Complete, effects = calls\<rparr>"
    by (simp add: switchMap_on_of_value transformed)
  have c: "clean env options context ?wt =
      \<lparr>emitted = [?wt], ending = Complete, effects = ?cleaning\<rparr>"
    using cleaned by (simp add: clean_def map_run_def subscribe_def of_value_def)
  have s2: "switchMap (clean env options context)
      \<lparr>emitted = [?wt], ending = Complete, effects = calls\<rparr> =
      \<lparr>emitted = [?wt], ending = Complete, effects = calls @ ?cleaning\<rparr>"
    unfolding switchMap_single c by simp
  have "buildWebpackBrowser env options context hooks =
      switchMap
        (build env options context hooks (loggingCallback env options context hooks)
           (normalize env (workspaceRoot context)))
        \<lparr>emitted = [?wt], ending = Complete, effects = calls @ ?cleaning\<rparr>"
    by (simp only: buildWebpackBrowser_def s0 s1 s2)
  also have "\<dots> =
      concatMap (emit (outputFn hooks))
        ((results_before_emit env options context workspace p (map RunWebpack transformed)
           (runBuilds env context (loggingCallback env options context hooks) transformed))
         \<lparr>effects := (calls @ ?cleaning) @
            effects (results_before_emit env options context workspace p
              (map RunWebpack transformed)
              (runBuilds env context (loggingCallback env options context hooks)
                 transformed))\<rparr>)"
    by (simp only: switchMap_single build_normal_form [OF proj sw] concatMap_effects_in_front)
  also have "\<dots> =
      concatMap (emit (outputFn hooks))
       (results_before_emit env options context workspace p
          (calls @ ?cleaning @ map RunWebpack transformed)
          (runBuilds env context (loggingCallback env options context hooks) transformed))"
    by (simp add: results_before_emit_def)
  finally show ?thesis .
qed

lemma transformConfigs_no_hook:
  "configFn hooks = None \<Longrightarrow>
     transformConfigs env hooks wc = \<lparr>emitted = [wc], ending = Complete, effects = []\<rparr>"
  by (simp add: transformConfigs_def of_value_def)

section \<open>The sample project, evaluated\<close>

lemma sample_configure:
  assumes "main options = Some ''src/main.ts''" "aot options = Some True"
    "webWorkerTsConfig options = None"
  shows "buildBrowserWebpackConfigFromContext sample_env options sample_context =
     Resolved (sample_workspace, [sample_config])"
  using assms
  by (simp add: buildBrowserWebpackConfigFromContext_def
      generateBrowserWebpackConfigFromContext_def sample_env_def sample_context_def
      webpackPartialGenerator_def getAnalyticsConfig_def getCompilerConfig_def sample_wco_def
      sample_merge_def sample_config_def empty_configuration_def aot_fragment_def)

lemma sample_builds:
  "runBuilds sample_env context callback [c] =
     \<lparr>emitted = [[\<lparr>success = True\<rparr>]], ending = Complete\<rparr>"
  by (simp add: runBuilds_def combineLatest_def notifications_def sample_env_def)

lemma sample_project:
  "truthy_str (projectNameOf sample_context sample_workspace)"
  "getProject sample_workspace (the (projectNameOf sample_context sample_workspace)) =
     Inr \<lparr>project_root = ''app''\<rparr>"
  by (simp_all add: projectNameOf_def sample_context_def sample_workspace_def getProject_def)

lemma sample_run:
  assumes "main options = Some ''src/main.ts''" "aot options = Some True"
    "webWorkerTsConfig options = None"
  shows "buildWebpackBrowser sample_env options sample_context no_hooks =
     \<lparr>emitted = [\<lparr>success = (\<not> augmenting options),
          outputPath_of = Some (''/ws/'' @ outputPath options)\<rparr>],
      ending = Complete,
      effects =
        (if truthy_bool (deleteOutputPath options)
         then [DeleteOutputDir ''/ws'' (outputPath options)] else []) @
        [RunWebpack sample_config] @
        (if augmenting options
         then [AugmentAppWithServiceWorker ''/ws'' ''/ws/app'' (''/ws/'' @ outputPath options)
                 (or_else (baseHref options) ''/'') (ngswConfigPath options)]
         else [])\<rparr>"
proof -
  have cfg: "buildBrowserWebpackConfigFromContext sample_env options sample_context =
     Resolved (sample_workspace, [sample_config])"
    using assms by (rule sample_configure)
  have transformed: "transformConfigs sample_env no_hooks (sample_workspace, [sample_config]) =
     \<lparr>emitted = [(sample_workspace, [sample_config])], ending = Complete, effects = []\<rparr>"
    by (rule transformConfigs_no_hook) (simp add: no_hooks_def)
  have cleaned: "truthy_bool (deleteOutputPath options) \<longrightarrow>
        deleteOutputDir sample_env (normalize sample_env (workspaceRoot sample_context))
          (normalize sample_env (outputPath options)) = \<lparr>emitted = [()], ending = Complete\<rparr>"
    by (simp add: sample_env_def)
  have sw: "augmenting options \<longrightarrow>
      (\<exists>q. augmenterResult sample_env options sample_context sample_workspace
        \<lparr>project_root = ''app''\<rparr> = Inr q \<and> q \<noteq> Unsettled)"
    by (simp add: augmenterResult_def sample_env_def)
  have none: "outputFn no_hooks = None"
    by (simp add: no_hooks_def)
  show ?thesis
    unfolding buildWebpackBrowser_normal_form [OF cfg transformed cleaned sample_project sw]
      none concatMap_emit_None results_before_emit_def sample_builds
    by (simp add: sample_env_def augmenterResult_def augmenterCall_def
        sample_context_def sample_workspace_def)
qed

lemma differential_configure:
  "buildBrowserWebpackConfigFromContext differential_env plain_options sample_context =
     Resolved (sample_workspace, [sample_config, legacy_config])"
  by (simp add: buildBrowserWebpackConfigFromContext_def
      generateBrowserWebpackConfigFromContext_def differential_env_def sample_env_def
      sample_context_def plain_options_def sample_options_def
      webpackPartialGenerator_def getAnalyticsConfig_def getCompilerConfig_def sample_wco_def
      sample_merge_def sample_config_def legacy_config_def empty_configuration_def
      aot_fragment_def non_aot_fragment_def)

lemma differential_builds:
  "runBuilds differential_env context callback [sample_config, legacy_config] =
     \<lparr>emitted = [[\<lparr>success = True\<rparr>, \<lparr>success = False\<rparr>]], ending = Complete\<rparr>"
  by (simp add: runBuilds_def combineLatest_def notifications_def differential_env_def
      sample_env_def sample_config_def legacy_config_def)

lemma sample_run_hooks:
  "buildWebpackBrowser sample_env sample_options sample_context echo_hooks =
     \<lparr>emitted = [\<lparr>success = False, outputPath_of = None\<rparr>],
      ending = Complete,
      effects = [ConfigFn sample_config, DeleteOutputDir ''/ws'' ''dist'', RunWebpack sample_config,
        AugmentAppWithServiceWorker ''/ws'' ''/ws/app'' ''/ws/dist'' ''/'' None,
        OutputFn False ''/ws/dist'']\<rparr>"
proof -
  have cfg: "buildBrowserWebpackConfigFromContext sample_env sample_options sample_context =
     Resolved (sample_workspace, [sample_config])"
    by (rule sample_configure) (simp_all add: sample_options_def)
  show ?thesis
    unfolding buildWebpackBrowser_def cfg
    by (simp add: switchMap_def concatMap_def of_value_def from_promise_def then_run_def
      transformConfigs_def echo_hooks_def map_run_def subscribe_def combineLatest_def
      notifications_def sample_env_def clean_def sample_options_def sample_context_def
      build_def projectNameOf_def sample_workspace_def getProject_def runBuilds_def
      aggregate_def postProcess_def emit_def withOutputPath_def or_else_def Let_def)
qed

section \<open>Properties of the logging adapter\<close>



section \<open>The claims\<close>

text \<open>
  C1 as stated (the success flag that \<^verbatim>\<open>buildWebpackBrowser\<close> returns is true if and only
  if every build event reports success) fails: in the sample run the one build event
  reports success and the result has the flag false, because the post-processing of
  lines 199 to 212 comes after the aggregate and the augmenter's promise rejects.
\<close>

theorem success_flag_is_aggregate_counterexample:
  "emitted (runBuilds sample_env sample_context
      (loggingCallback sample_env sample_options sample_context no_hooks) [sample_config]) =
     [[\<lparr>success = True\<rparr>]] \<and>
   buildWebpackBrowser sample_env sample_options sample_context no_hooks =
     \<lparr>emitted = [\<lparr>success = False, outputPath_of = Some ''/ws/dist''\<rparr>], ending = Complete,
      effects = [DeleteOutputDir ''/ws'' ''dist'', RunWebpack sample_config,
        AugmentAppWithServiceWorker ''/ws'' ''/ws/app'' ''/ws/dist'' ''/'' None]\<rparr>"
proof
  show "emitted (runBuilds sample_env sample_context
      (loggingCallback sample_env sample_options sample_context no_hooks) [sample_config]) =
     [[\<lparr>success = True\<rparr>]]"
    by (simp add: sample_builds)
  show "buildWebpackBrowser sample_env sample_options sample_context no_hooks =
     \<lparr>emitted = [\<lparr>success = False, outputPath_of = Some ''/ws/dist''\<rparr>], ending = Complete,
      effects = [DeleteOutputDir ''/ws'' ''dist'', RunWebpack sample_config,
        AugmentAppWithServiceWorker ''/ws'' ''/ws/app'' ''/ws/dist'' ''/'' None]\<rparr>"
    by (subst sample_run) (simp_all add: sample_options_def augmenting_def or_else_def)
qed

text \<open>
  C1, amended. In a run in which the configurations were assembled, the transform stage
  delivered one configuration list, the clean step (if requested) completed and the
  workspace has the project, and in which post-processing does not lower the flag
  (watch mode is requested, or the service worker is not requested, or the augmenter's
  promise resolves): the results that \<^verbatim>\<open>buildWebpackBrowser\<close> produces, and then emits or
  hands to the output transform (line 218), are one per array of build events, in
  order, each with the success flag that is true if and only if every build event of
  its array reports success; one event that reports failure makes it false. The run
  without output transform emits exactly these results and ends as the builds end.
\<close>

theorem success_flag_is_aggregate:
  assumes cfg: "buildBrowserWebpackConfigFromContext env options context =
        Resolved (workspace, configs)"
    and transformed: "transformConfigs env hooks (workspace, configs) =
        \<lparr>emitted = [(workspace, transformed)], ending = Complete, effects = calls\<rparr>"
    and cleaned: "truthy_bool (deleteOutputPath options) \<longrightarrow>
        deleteOutputDir env (normalize env (workspaceRoot context))
          (normalize env (outputPath options)) = \<lparr>emitted = [()], ending = Complete\<rparr>"
    and proj: "truthy_str (projectNameOf context workspace)"
      "getProject workspace (the (projectNameOf context workspace)) = Inr p"
    and post: "\<not> augmenting options \<or>
        augmenterResult env options context workspace p = Inr (Resolved ())"
  shows "(\<exists>results.
       buildWebpackBrowser env options context hooks =
         concatMap (emit (outputFn hooks)) results \<and>
       emitted results =
         map (\<lambda>buildEvents. \<lparr>success = (\<forall>r \<in> set buildEvents. success r),
           output_path = path_resolve env (workspaceRoot context) (outputPath options)\<rparr>)
           (emitted (runBuilds env context (loggingCallback env options context hooks)
              transformed)) \<and>
       ending results =
         ending (runBuilds env context (loggingCallback env options context hooks)
           transformed)) \<and>
     (outputFn hooks = None \<longrightarrow>
       emitted (buildWebpackBrowser env options context hooks) =
         map (\<lambda>buildEvents. \<lparr>success = (\<forall>r \<in> set buildEvents. success r),
           outputPath_of = Some (path_resolve env (workspaceRoot context) (outputPath options))\<rparr>)
           (emitted (runBuilds env context (loggingCallback env options context hooks)
              transformed)) \<and>
       ending (buildWebpackBrowser env options context hooks) =
         ending (runBuilds env context (loggingCallback env options context hooks)
           transformed))"
proof -
  let ?calls = "calls @
     (if truthy_bool (deleteOutputPath options)
      then [DeleteOutputDir (normalize env (workspaceRoot context))
              (normalize env (outputPath options))] else []) @
     map RunWebpack transformed"
  let ?builds = "runBuilds env context (loggingCallback env options context hooks) transformed"
  let ?results = "results_before_emit env options context workspace p ?calls ?builds"
  have sw: "augmenting options \<longrightarrow>
      (\<exists>q. augmenterResult env options context workspace p = Inr q \<and> q \<noteq> Unsettled)"
    using post by auto
  have run: "buildWebpackBrowser env options context hooks =
      concatMap (emit (outputFn hooks)) ?results"
    by (rule buildWebpackBrowser_normal_form [OF cfg transformed cleaned proj sw])
  have flags: "emitted ?results =
      map (\<lambda>buildEvents. \<lparr>success = (\<forall>r \<in> set buildEvents. success r),
        output_path = path_resolve env (workspaceRoot context) (outputPath options)\<rparr>)
        (emitted ?builds)"
    using post by (auto simp: results_before_emit_def every_iff)
  have ends: "ending ?results = ending ?builds"
    by (simp add: results_before_emit_def)
  show ?thesis
  proof (intro conjI impI)
    show "\<exists>results.
       buildWebpackBrowser env options context hooks =
         concatMap (emit (outputFn hooks)) results \<and>
       emitted results =
         map (\<lambda>buildEvents. \<lparr>success = (\<forall>r \<in> set buildEvents. success r),
           output_path = path_resolve env (workspaceRoot context) (outputPath options)\<rparr>)
           (emitted ?builds) \<and>
       ending results = ending ?builds"
      using run flags ends by blast
  next
    assume none: "outputFn hooks = None"
    show "emitted (buildWebpackBrowser env options context hooks) =
         map (\<lambda>buildEvents. \<lparr>success = (\<forall>r \<in> set buildEvents. success r),
           outputPath_of = Some (path_resolve env (workspaceRoot context) (outputPath options))\<rparr>)
           (emitted ?builds)"
      unfolding run none concatMap_emit_None using flags by (simp add: o_def)
  next
    assume none: "outputFn hooks = None"
    show "ending (buildWebpackBrowser env options context hooks) = ending ?builds"
      unfolding run none concatMap_emit_None using ends by simp
  qed
qed

text \<open>The sample project without service worker: one build that succeeds gives the
  flag true; two builds of which the second fails give the flag false.\<close>

theorem success_flag_is_aggregate_witness:
  "emitted (runBuilds sample_env sample_context
      (loggingCallback sample_env plain_options sample_context no_hooks) [sample_config]) =
     [[\<lparr>success = True\<rparr>]] \<and>
   emitted (buildWebpackBrowser sample_env plain_options sample_context no_hooks) =
     [\<lparr>success = True, outputPath_of = Some ''/ws/dist''\<rparr>] \<and>
   emitted (runBuilds differential_env sample_context
      (loggingCallback differential_env plain_options sample_context no_hooks)
      [sample_config, legacy_config]) =
     [[\<lparr>success = True\<rparr>, \<lparr>success = False\<rparr>]] \<and>
   emitted (buildWebpackBrowser differential_env plain_options sample_context no_hooks) =
     [\<lparr>success = False, outputPath_of = Some ''/ws/dist''\<rparr>]"
proof -
  have plain: "\<not> augmenting plain_options"
    by (simp add: augmenting_def plain_options_def sample_options_def)
  have none: "outputFn no_hooks = None"
    by (simp add: no_hooks_def)
  have cfg1: "buildBrowserWebpackConfigFromContext sample_env plain_options sample_context =
     Resolved (sample_workspace, [sample_config])"
    by (rule sample_configure) (simp_all add: plain_options_def sample_options_def)
  have tr1: "transformConfigs sample_env no_hooks (sample_workspace, [sample_config]) =
     \<lparr>emitted = [(sample_workspace, [sample_config])], ending = Complete, effects = []\<rparr>"
    by (rule transformConfigs_no_hook) (simp add: no_hooks_def)
  have cl1: "truthy_bool (deleteOutputPath plain_options) \<longrightarrow>
      deleteOutputDir sample_env (normalize sample_env (workspaceRoot sample_context))
        (normalize sample_env (outputPath plain_options)) =
      \<lparr>emitted = [()], ending = Complete\<rparr>"
    by (simp add: sample_env_def)
  have tr2: "transformConfigs differential_env no_hooks
      (sample_workspace, [sample_config, legacy_config]) =
     \<lparr>emitted = [(sample_workspace, [sample_config, legacy_config])], ending = Complete,
      effects = []\<rparr>"
    by (rule transformConfigs_no_hook) (simp add: no_hooks_def)
  have cl2: "truthy_bool (deleteOutputPath plain_options) \<longrightarrow>
      deleteOutputDir differential_env
        (normalize differential_env (workspaceRoot sample_context))
        (normalize differential_env (outputPath plain_options)) =
      \<lparr>emitted = [()], ending = Complete\<rparr>"
    by (simp add: differential_env_def sample_env_def)
  have path1: "path_resolve sample_env (workspaceRoot sample_context) (outputPath plain_options) =
      ''/ws/dist''"
    by (simp add: sample_env_def sample_context_def plain_options_def sample_options_def)
  have path2: "path_resolve differential_env (workspaceRoot sample_context)
      (outputPath plain_options) = ''/ws/dist''"
    by (simp add: differential_env_def sample_env_def sample_context_def plain_options_def
        sample_options_def)
  note one = success_flag_is_aggregate
    [OF cfg1 tr1 cl1 sample_project disjI1 [OF plain], THEN conjunct2, rule_format, OF none,
     unfolded sample_builds path1]
  note two = success_flag_is_aggregate
    [OF differential_configure tr2 cl2 sample_project disjI1 [OF plain], THEN conjunct2,
     rule_format, OF none, unfolded differential_builds path2]
  show ?thesis
    using one two by (simp add: sample_builds differential_builds)
qed




text \<open>
  C3. When the context has no target and the workspace has no default project, the run
  fails with the resolution error in the Configure stage: it emits nothing and calls
  neither the output cleaner nor the build runner (nor any other collaborator). The
  Configure stage is the function modelled from the spec above.
\<close>

theorem unresolved_project_aborts_in_configure:
  assumes "loadWorkspace env (normalize env (workspaceRoot context)) = Resolved workspace"
    and "target context = None"
    and "getDefaultProjectName workspace = None"
  shows "buildWebpackBrowser env options context hooks =
           \<lparr>emitted = [], ending = Throw resolution_error, effects = []\<rparr>"
proof -
  have "buildBrowserWebpackConfigFromContext env options context = Rejected resolution_error"
    using assms
    by (simp add: buildBrowserWebpackConfigFromContext_def
        generateBrowserWebpackConfigFromContext_def)
  then have "switchMap
       (\<lambda>_. from_promise (buildBrowserWebpackConfigFromContext env options context))
       (of_value ()) = throw_error resolution_error"
    by (simp add: switchMap_on_of_value from_promise_def)
  then show ?thesis
    by (simp add: buildWebpackBrowser_def switchMap_throw_error) (simp add: throw_error_def)
qed

text \<open>An instance on the sample project.\<close>

theorem unresolved_project_aborts_in_configure_witness:
  "truthy_bool (deleteOutputPath sample_options) \<and>
   buildWebpackBrowser sample_env sample_options (sample_context\<lparr>target := None\<rparr>) no_hooks =
     \<lparr>emitted = [], ending = Throw resolution_error, effects = []\<rparr>"
proof -
  have "loadWorkspace sample_env
      (normalize sample_env (workspaceRoot (sample_context\<lparr>target := None\<rparr>))) =
      Resolved sample_workspace"
    by (simp add: sample_env_def)
  moreover have "target (sample_context\<lparr>target := None\<rparr>) = None"
    by simp
  moreover have "getDefaultProjectName sample_workspace = None"
    by (simp add: sample_workspace_def)
  ultimately show ?thesis
    using unresolved_project_aborts_in_configure
      [of sample_env "sample_context\<lparr>target := None\<rparr>" sample_workspace sample_options no_hooks]
    by (simp add: sample_options_def)
qed

text \<open>
  C4. When watch mode is requested, no call of a run is a call of the service-worker
  augmenter, whatever the service-worker option and the builds.
\<close>

theorem watch_mode_never_augments:
  assumes "truthy_bool (watch options)"
  shows "\<forall>e \<in> set (effects (buildWebpackBrowser env options context hooks)).
           \<not> is_augmentation e"
proof
  fix e
  assume "e \<in> set (effects (buildWebpackBrowser env options context hooks))"
  then have "expected_effect env options context e"
    by (rule effects_buildWebpackBrowser)
  with assms show "\<not> is_augmentation e"
    by (cases e) (simp_all add: expected_effect_def augmenting_def)
qed

text \<open>An instance on the sample project.\<close>

theorem watch_mode_never_augments_witness:
  "truthy_bool (watch watching_options) \<and> truthy_bool (serviceWorker watching_options) \<and>
   emitted (buildWebpackBrowser sample_env watching_options sample_context no_hooks) =
     [\<lparr>success = True, outputPath_of = Some ''/ws/dist''\<rparr>] \<and>
   effects (buildWebpackBrowser sample_env watching_options sample_context no_hooks) =
     [DeleteOutputDir ''/ws'' ''dist'', RunWebpack sample_config]"
proof -
  have run: "buildWebpackBrowser sample_env watching_options sample_context no_hooks =
     \<lparr>emitted = [\<lparr>success = True, outputPath_of = Some ''/ws/dist''\<rparr>], ending = Complete,
      effects = [DeleteOutputDir ''/ws'' ''dist'', RunWebpack sample_config]\<rparr>"
    by (subst sample_run)
       (simp_all add: watching_options_def sample_options_def augmenting_def)
  show ?thesis
    using watch_mode_never_augments
      [of watching_options sample_env sample_context no_hooks]
    by (simp add: run) (simp add: watching_options_def sample_options_def)
qed

text \<open>
  C5. With a main entry or polyfills set (present and not empty, as the test of line 120
  reads them) the compiler fragment is the AOT fragment when AOT is requested and the
  non-AOT fragment when it is not; with neither set it is the empty fragment, whatever
  the AOT flag.
\<close>

theorem compiler_fragment_by_entry_and_aot:
  "(truthy_str (main (buildOptions wco)) \<or> truthy_str (polyfills (buildOptions wco)) \<longrightarrow>
      truthy_bool (aot (buildOptions wco)) \<longrightarrow>
      getCompilerConfig env wco = getAotConfig env wco) \<and>
   (truthy_str (main (buildOptions wco)) \<or> truthy_str (polyfills (buildOptions wco)) \<longrightarrow>
      \<not> truthy_bool (aot (buildOptions wco)) \<longrightarrow>
      getCompilerConfig env wco = getNonAotConfig env wco) \<and>
   (\<not> truthy_str (main (buildOptions wco)) \<and> \<not> truthy_str (polyfills (buildOptions wco)) \<longrightarrow>
      getCompilerConfig env wco = empty_configuration)"
  by (simp add: getCompilerConfig_def)

text \<open>An instance on the sample project.\<close>

theorem compiler_fragment_by_entry_and_aot_witness:
  "getCompilerConfig sample_env (sample_wco sample_options) = aot_fragment \<and>
   getCompilerConfig sample_env
     (sample_wco (sample_options\<lparr>main := None, polyfills := Some ''src/polyfills.ts'',
        aot := Some False\<rparr>)) = non_aot_fragment \<and>
   getCompilerConfig sample_env (sample_wco (sample_options\<lparr>main := None\<rparr>)) =
     empty_configuration \<and>
   getCompilerConfig sample_env (sample_wco (sample_options\<lparr>main := None, aot := None\<rparr>)) =
     empty_configuration"
  using compiler_fragment_by_entry_and_aot [of "sample_wco sample_options" sample_env]
    compiler_fragment_by_entry_and_aot
      [of "sample_wco (sample_options\<lparr>main := None, polyfills := Some ''src/polyfills.ts'',
        aot := Some False\<rparr>)" sample_env]
    compiler_fragment_by_entry_and_aot [of "sample_wco (sample_options\<lparr>main := None\<rparr>)" sample_env]
    compiler_fragment_by_entry_and_aot
      [of "sample_wco (sample_options\<lparr>main := None, aot := None\<rparr>)" sample_env]
  by (simp add: sample_wco_def sample_options_def sample_env_def)

text \<open>
  C6. Every final build result has the output path \<^verbatim>\<open>path.resolve(context.workspaceRoot,
  options.outputPath)\<close>, whatever its success flag: every result that a run without
  output transform emits, and every result that is handed to the output transform.
\<close>

theorem output_path_is_resolved:
  "(outputFn hooks = None \<longrightarrow>
      (\<forall>r \<in> set (emitted (buildWebpackBrowser env options context hooks)).
         outputPath_of r = Some (path_resolve env (workspaceRoot context) (outputPath options)))) \<and>
   (\<forall>s p. OutputFn s p \<in> set (effects (buildWebpackBrowser env options context hooks)) \<longrightarrow>
      p = path_resolve env (workspaceRoot context) (outputPath options))"
proof (intro conjI impI allI ballI)
  fix r
  assume "outputFn hooks = None"
    and "r \<in> set (emitted (buildWebpackBrowser env options context hooks))"
  then show "outputPath_of r = Some (path_resolve env (workspaceRoot context) (outputPath options))"
    by (rule emitted_buildWebpackBrowser)
next
  fix s p
  assume "OutputFn s p \<in> set (effects (buildWebpackBrowser env options context hooks))"
  then have "expected_effect env options context (OutputFn s p)"
    by (rule effects_buildWebpackBrowser)
  then show "p = path_resolve env (workspaceRoot context) (outputPath options)"
    by (simp add: expected_effect_def)
qed

text \<open>An instance on the sample project.\<close>

theorem output_path_is_resolved_witness:
  "path_resolve sample_env (workspaceRoot sample_context) (outputPath sample_options) =
     ''/ws/dist'' \<and>
   emitted (buildWebpackBrowser sample_env sample_options sample_context no_hooks) =
     [\<lparr>success = False, outputPath_of = Some ''/ws/dist''\<rparr>] \<and>
   emitted (buildWebpackBrowser sample_env plain_options sample_context no_hooks) =
     [\<lparr>success = True, outputPath_of = Some ''/ws/dist''\<rparr>] \<and>
   OutputFn False ''/ws/dist'' \<in>
     set (effects (buildWebpackBrowser sample_env sample_options sample_context echo_hooks))"
proof -
  have run1: "emitted (buildWebpackBrowser sample_env sample_options sample_context no_hooks) =
     [\<lparr>success = False, outputPath_of = Some ''/ws/dist''\<rparr>]"
    by (subst sample_run) (simp_all add: sample_options_def augmenting_def)
  have run2: "emitted (buildWebpackBrowser sample_env plain_options sample_context no_hooks) =
     [\<lparr>success = True, outputPath_of = Some ''/ws/dist''\<rparr>]"
    by (subst sample_run) (simp_all add: plain_options_def sample_options_def augmenting_def)
  have path: "path_resolve sample_env (workspaceRoot sample_context) (outputPath sample_options) =
     ''/ws/dist''"
    by (simp add: sample_env_def sample_context_def sample_options_def)
  show ?thesis
    using output_path_is_resolved [of no_hooks sample_env sample_options sample_context]
      output_path_is_resolved [of no_hooks sample_env plain_options sample_context]
      output_path_is_resolved [of echo_hooks sample_env sample_options sample_context]
    by (simp add: run1 run2 path sample_run_hooks)
qed

text \<open>
  C7. For a context without analytics sink, \<^verbatim>\<open>getAnalyticsConfig\<close> is the empty fragment,
  and so is the fifth entry of the fragment list, for all build options.
\<close>

theorem no_sink_no_analytics_fragment:
  assumes "analytics context = None"
  shows "getAnalyticsConfig wco context = empty_configuration \<and>
     webpackPartialGenerator env context wco ! 4 = empty_configuration"
  using assms by (simp add: getAnalyticsConfig_def webpackPartialGenerator_def)

text \<open>An instance on the sample project.\<close>

theorem no_sink_no_analytics_fragment_witness:
  "analytics sample_context = None \<and>
   webpackPartialGenerator sample_env sample_context (sample_wco sample_options) ! 4 =
     \<lparr>plugins = None, stats = None, settings = []\<rparr>"
proof -
  have "analytics sample_context = None"
    by (simp add: sample_context_def)
  then show ?thesis
    using no_sink_no_analytics_fragment [of sample_context "sample_wco sample_options" sample_env]
    by (simp add: empty_configuration_def)
qed




text \<open>
  C9 as stated (for every statistics object the callback emits the statistics text, and
  a warnings summary exactly when the statistics report warnings) fails for a
  statistics object whose \<^verbatim>\<open>toJson\<close> throws: it reports warnings, and the callback
  writes no line at all.
\<close>

theorem logging_callback_lines_counterexample:
  "hasWarnings broken_stats = Inr True \<and>
   createBrowserLoggingCallback sample_env True sample_logger broken_stats sample_config =
     \<lparr>lines = [], outcome = Inl (Error ''circular structure'')\<rparr>"
  by (simp add: createBrowserLoggingCallback_def call_def throws_def broken_stats_def
      sample_stats_def)

text \<open>
  C9, amended. When the calls of the callback return, it writes, in this order: at info
  level the full text of the statistics when verbose and the condensed summary when
  not; at warning level the warnings summary exactly when the statistics report
  warnings; at error level the errors summary exactly when they report errors; and
  nothing else.
\<close>

theorem logging_callback_lines:
  assumes "toJson st (stats config) = Inr json"
    and "verbose_flag \<longrightarrow> toString st (stats config) = Inr text"
    and "\<not> verbose_flag \<longrightarrow> statsToString env json (stats config) = Inr text"
    and "info logger_api text = Inr ()"
    and "hasWarnings st = Inr warnings"
    and "warnings \<longrightarrow> statsWarningsToString env json (stats config) = Inr warning_text \<and>
           warn logger_api warning_text = Inr ()"
    and "hasErrors st = Inr errors"
    and "errors \<longrightarrow> statsErrorsToString env json (stats config) = Inr error_text \<and>
           error logger_api error_text = Inr ()"
  shows "createBrowserLoggingCallback env verbose_flag logger_api st config =
     \<lparr>lines = (Info, text) #
        (if warnings then [(Warn, warning_text)] else []) @
        (if errors then [(Err, error_text)] else []),
      outcome = Inr ()\<rparr>"
  using assms
  by (cases verbose_flag; cases warnings; cases errors)
     (simp_all add: createBrowserLoggingCallback_def call_def log_line_def returns_def)

text \<open>A build with warnings, not verbose; a build with errors, verbose.\<close>

theorem logging_callback_lines_witness:
  "createBrowserLoggingCallback sample_env False sample_logger sample_stats sample_config =
     \<lparr>lines = [(Info, ''chunk {main} main.js''), (Warn, ''WARNING in budgets'')],
      outcome = Inr ()\<rparr> \<and>
   createBrowserLoggingCallback sample_env True sample_logger error_stats sample_config =
     \<lparr>lines = [(Info, ''Hash: 5f2c''), (Err, ''ERROR in src/main.ts'')],
      outcome = Inr ()\<rparr>"
proof
  show "createBrowserLoggingCallback sample_env False sample_logger sample_stats sample_config =
     \<lparr>lines = [(Info, ''chunk {main} main.js''), (Warn, ''WARNING in budgets'')],
      outcome = Inr ()\<rparr>"
    using logging_callback_lines [of sample_stats sample_config "''{}''" False
        "''chunk {main} main.js''" sample_env sample_logger True "''WARNING in budgets''" False
        "[]"]
    by (simp add: sample_env_def sample_logger_def sample_stats_def)
  show "createBrowserLoggingCallback sample_env True sample_logger error_stats sample_config =
     \<lparr>lines = [(Info, ''Hash: 5f2c''), (Err, ''ERROR in src/main.ts'')],
      outcome = Inr ()\<rparr>"
    using logging_callback_lines [of error_stats sample_config "''{}''" True "''Hash: 5f2c''"
        sample_env sample_logger False "[]" True "''ERROR in src/main.ts''"]
    by (simp add: sample_env_def sample_logger_def sample_stats_def error_stats_def)
qed

text \<open>
  C10. Every call of the service-worker augmenter that a run makes has the base href
  \<^verbatim>\<open>/\<close> when \<^verbatim>\<open>options.baseHref\<close> is unset or empty, and the configured base href
  otherwise.
\<close>

theorem augmenter_base_href:
  "\<forall>e \<in> set (effects (buildWebpackBrowser env options context hooks)).
     \<forall>href. base_href_of e = Some href \<longrightarrow>
       (baseHref options = None \<or> baseHref options = Some [] \<longrightarrow> href = ''/'') \<and>
       (\<forall>configured. baseHref options = Some configured \<and> configured \<noteq> [] \<longrightarrow>
          href = configured)"
proof (intro ballI allI impI)
  fix e href
  assume "e \<in> set (effects (buildWebpackBrowser env options context hooks))"
  then have "expected_effect env options context e"
    by (rule effects_buildWebpackBrowser)
  moreover assume "base_href_of e = Some href"
  ultimately have "href = or_else (baseHref options) ''/''"
    by (cases e) (simp_all add: expected_effect_def)
  then show "(baseHref options = None \<or> baseHref options = Some [] \<longrightarrow> href = ''/'') \<and>
       (\<forall>configured. baseHref options = Some configured \<and> configured \<noteq> [] \<longrightarrow>
          href = configured)"
    by (auto simp: or_else_def)
qed

text \<open>The sample project with no base href, an empty one and \<^verbatim>\<open>/app/\<close>.\<close>

theorem augmenter_base_href_witness:
  "map base_href_of
     (effects (buildWebpackBrowser sample_env sample_options sample_context no_hooks)) =
     [None, None, Some ''/''] \<and>
   map base_href_of
     (effects (buildWebpackBrowser sample_env empty_href_options sample_context no_hooks)) =
     [None, None, Some ''/''] \<and>
   map base_href_of
     (effects (buildWebpackBrowser sample_env app_href_options sample_context no_hooks)) =
     [None, None, Some ''/app/'']"
proof -
  have run1: "effects (buildWebpackBrowser sample_env sample_options sample_context no_hooks) =
      [DeleteOutputDir ''/ws'' ''dist'', RunWebpack sample_config,
       AugmentAppWithServiceWorker ''/ws'' ''/ws/app'' ''/ws/dist'' ''/'' None]"
    by (subst sample_run) (simp_all add: sample_options_def augmenting_def or_else_def)
  have run2: "effects (buildWebpackBrowser sample_env empty_href_options sample_context no_hooks) =
      [DeleteOutputDir ''/ws'' ''dist'', RunWebpack sample_config,
       AugmentAppWithServiceWorker ''/ws'' ''/ws/app'' ''/ws/dist'' ''/'' None]"
    by (subst sample_run)
       (simp_all add: empty_href_options_def sample_options_def augmenting_def or_else_def)
  have run3: "effects (buildWebpackBrowser sample_env app_href_options sample_context no_hooks) =
      [DeleteOutputDir ''/ws'' ''dist'', RunWebpack sample_config,
       AugmentAppWithServiceWorker ''/ws'' ''/ws/app'' ''/ws/dist'' ''/app/'' None]"
    by (subst sample_run)
       (simp_all add: app_href_options_def sample_options_def augmenting_def or_else_def)
  show ?thesis
    using augmenter_base_href [of sample_env sample_options sample_context no_hooks]
      augmenter_base_href [of sample_env empty_href_options sample_context no_hooks]
      augmenter_base_href [of sample_env app_href_options sample_context no_hooks]
    unfolding run1 run2 run3 by simp
qed

end
